theory Spec2Isabelle
  imports Main "HOL-Library.Word" "HOL-Library.Sublist"
begin

unbundle bit_operations_syntax

section \<open>Data model of pcsc_uid.py\<close>

text \<open>
  Bytes of an APDU response are 8-bit words; the 32-bit state masks of the reader state
  structure are 32-bit words. Status codes returned by the smart-card service arrive in
  Python as unbounded integers (\<open>ctypes\<close> converts the C return value), so they are
  \<open>int\<close> here: a service may hand back \<open>0x8010000C\<close> or its two's-complement reading
  \<open>0x8010000C - 2^32\<close>.
\<close>

type_synonym byte = "8 word"
type_synonym dword = "32 word"

text \<open>
  The exceptions that leave the module: \<open>RuntimeError\<close> and \<open>NoCardDetectedError\<close> are
  raised by the module itself, each with its message; \<open>OSError\<close> is what loading the
  service library raises, \<open>UnicodeDecodeError\<close> what decoding a reader name raises.
  A computation that may raise returns \<open>exn + 'a\<close>, \<open>Inl\<close> being the raise.
\<close>

datatype exn =
    RuntimeError string
  | NoCardDetectedError string
  | OSError string
  | UnicodeDecodeError

subsection \<open>Constants\<close>

definition SCARD_S_SUCCESS :: int where "SCARD_S_SUCCESS = 0"
definition SCARD_E_NO_SMARTCARD :: int where "SCARD_E_NO_SMARTCARD = 0x8010000C"
definition SCARD_W_REMOVED_CARD :: int where "SCARD_W_REMOVED_CARD = 0x80100069"

definition GET_UID :: "byte list" where
  "GET_UID = [0xFF, 0xCA, 0x00, 0x00, 0x00]"

definition SCARD_STATE_UNAWARE :: dword where "SCARD_STATE_UNAWARE = 0x00000000"
definition SCARD_STATE_UNAVAILABLE :: dword where "SCARD_STATE_UNAVAILABLE = 0x00000008"
definition SCARD_STATE_EMPTY :: dword where "SCARD_STATE_EMPTY = 0x00000010"
definition SCARD_STATE_PRESENT :: dword where "SCARD_STATE_PRESENT = 0x00000020"

section \<open>String formatting\<close>

text \<open>
  \<open>bytes.hex()\<close> writes every byte as two lower-case hexadecimal digits, high nibble
  first; \<open>str.upper()\<close> maps the letters \<open>a\<close>..\<open>z\<close> to \<open>A\<close>..\<open>Z\<close> and leaves
  every other ASCII character alone. \<open>hex\<close> is the module's \<open>_hex\<close>.
\<close>

definition lower_digits :: string where
  "lower_digits = ''0123456789abcdef''"

definition upper_digits :: string where
  "upper_digits = ''0123456789ABCDEF''"

definition bytes_hex :: "byte list \<Rightarrow> string" where
  "bytes_hex b =
     concat (map (\<lambda>x. [lower_digits ! (unat x div 16), lower_digits ! (unat x mod 16)]) b)"

definition upper_char :: "char \<Rightarrow> char" where
  "upper_char c =
     (let n = (of_char c :: nat) in if 97 \<le> n \<and> n \<le> 122 then char_of (n - 32) else c)"

definition str_upper :: "string \<Rightarrow> string" where
  "str_upper s = map upper_char s"

definition hex :: "byte list \<Rightarrow> string" where
  "hex b = str_upper (bytes_hex b)"

text \<open>
  The reading of the specification's \<open>uppercaseHex\<close>: two digits per byte, taken from
  \<open>0123456789ABCDEF\<close>, high nibble first.
\<close>

definition uppercaseHex :: "byte list \<Rightarrow> string" where
  "uppercaseHex b =
     concat (map (\<lambda>x. [upper_digits ! (unat x div 16), upper_digits ! (unat x mod 16)]) b)"

text \<open>
  The format specifications of the f-strings. \<open>{v:0wX}\<close> writes \<open>v\<close> in upper-case
  hexadecimal, padded with zeros to width \<open>w\<close>; the sign of a negative value comes first
  and counts towards the width. \<open>{v}\<close> writes \<open>v\<close> in decimal.
\<close>

fun hex_digits :: "nat \<Rightarrow> string" where
  "hex_digits n =
     (if n < 16 then [upper_digits ! n] else hex_digits (n div 16) @ [upper_digits ! (n mod 16)])"

declare hex_digits.simps [simp del]

fun dec_digits :: "nat \<Rightarrow> string" where
  "dec_digits n =
     (if n < 10 then [upper_digits ! n] else dec_digits (n div 10) @ [upper_digits ! (n mod 10)])"

declare dec_digits.simps [simp del]

definition zfill :: "nat \<Rightarrow> string \<Rightarrow> string" where
  "zfill w s = replicate (w - length s) CHR ''0'' @ s"

definition format_X :: "nat \<Rightarrow> int \<Rightarrow> string" where
  "format_X w v =
     (if v < 0 then CHR ''-'' # zfill (w - 1) (hex_digits (nat (- v)))
      else zfill w (hex_digits (nat v)))"

definition format_d :: "int \<Rightarrow> string" where
  "format_d v = (if v < 0 then CHR ''-'' # dec_digits (nat (- v)) else dec_digits (nat v))"

section \<open>Decoding an APDU response\<close>

text \<open>
  The one-shot readers decode the response in the same four lines (windows 101-106,
  macOS 324-329): a response shorter than two bytes raises, the last two bytes are the
  status word, anything but \<open>90 00\<close> raises, and the bytes before it are returned in
  hexadecimal. \<open>resp[:-2]\<close> is \<open>take (length resp - 2) resp\<close>; the two index reads are
  in range once the length check has passed.
\<close>

definition decode :: "byte list \<Rightarrow> exn + string" where
  "decode resp =
     (if length resp < 2 then Inl (RuntimeError ''Short response'')
      else
        let data = take (length resp - 2) resp;
            sw1 = resp ! (length resp - 2);
            sw2 = resp ! (length resp - 1)
        in if (sw1, sw2) \<noteq> (0x90, 0x00)
           then Inl (RuntimeError (''GET_UID failed: SW='' @ format_X 2 (uint sw1) @ format_X 2 (uint sw2)))
           else Inr (hex data))"

text \<open>
  \<open>NFCReader.read_uid\<close> decodes with a suffix comparison instead (lines 255-256):
  \<open>len(resp) >= 2 and resp[-2:] == b'\x90\x00'\<close>; \<open>resp[-2:]\<close> is
  \<open>drop (length resp - 2) resp\<close>. A response it does not accept gives no value.
\<close>

definition read_uid_decode :: "byte list \<Rightarrow> string option" where
  "read_uid_decode resp =
     (if length resp \<ge> 2 \<and> drop (length resp - 2) resp = [0x90, 0x00]
      then Some (hex (take (length resp - 2) resp))
      else None)"

section \<open>The smart-card service\<close>

text \<open>
  The module reaches the operating system through \<open>ctypes\<close>. Its behaviour is a function
  of what the service answers, so the answers are a parameter: one record holds the status
  code of every call site and the data the service writes back. Every run of the module
  also yields the list of service calls it made, in order, which is what the claims about
  released handles and re-enumeration speak of.

  \<^item> \<open>load_error\<close>: \<open>Some msg\<close> when loading the library raises \<open>OSError\<close>.
  \<^item> \<open>list_buf\<close>: the multi-string the second \<open>SCardListReaders\<close> call writes.
  \<^item> \<open>utf8_ok\<close>: whether the strict UTF-8 codec accepts a name (macOS decodes names).
  \<^item> \<open>response\<close>: the bytes \<open>recv_buf.raw[:recv_len.value]\<close> after \<open>SCardTransmit\<close>.
  \<^item> \<open>status_event\<close>: the \<open>dwEventState\<close> that \<open>SCardGetStatusChange\<close> writes.
    The service reads \<open>szReader\<close> and \<open>dwCurrentState\<close> and does not write them.
\<close>

record pcsc =
  load_error :: "string option"
  establish_rv :: int
  list_size_rv :: int
  list_rv :: int
  list_buf :: string
  utf8_ok :: "string \<Rightarrow> bool"
  connect_rv :: int
  transmit_rv :: int
  response :: "byte list"
  status_rv :: int
  status_event :: dword

datatype call =
    EstablishContext int
  | ListReaders int
  | Connect string int
  | Transmit "byte list" int
  | Disconnect
  | ReleaseContext
  | GetStatusChange "string option" dword int

type_synonym 'a run = "call list \<times> 'a"

text \<open>
  \<open>try: body finally: cleanup\<close>: the cleanup calls follow the body's calls whether the
  body returned or raised, and the body's outcome stands (the cleanup calls of this module
  ignore their status code). \<open>after\<close> puts the calls made so far in front of a run.
\<close>

definition try_finally :: "(exn + 'a) run \<Rightarrow> call list \<Rightarrow> (exn + 'a) run" where
  "try_finally body cleanup = (fst body @ cleanup, snd body)"

definition after :: "call list \<Rightarrow> 'a run \<Rightarrow> 'a run" where
  "after calls r = (calls @ fst r, snd r)"

text \<open>\<open>s.split("\x00")\<close> and the comprehension \<open>[s for s in ... if s]\<close>.\<close>

fun split :: "char \<Rightarrow> string \<Rightarrow> string list" where
  "split sep [] = [[]]"
| "split sep (c # cs) =
     (if c = sep then [] # split sep cs
      else (case split sep cs of [] \<Rightarrow> [[c]] | w # ws \<Rightarrow> (c # w) # ws))"

definition reader_names :: "string \<Rightarrow> string list" where
  "reader_names buf = filter (\<lambda>s. s \<noteq> []) (split (CHR 0x00) buf)"

section \<open>The one-shot readers\<close>

text \<open>
  Lines 85-106 (windows) and 308-329 (macOS), the body of the inner \<open>try\<close>: transmit
  \<open>GET_UID\<close>, raise on a status other than 0, decode the response.
\<close>

definition transmit_get_uid :: "pcsc \<Rightarrow> (exn + string) run" where
  "transmit_get_uid p =
     ([Transmit GET_UID (transmit_rv p)],
      if transmit_rv p \<noteq> SCARD_S_SUCCESS
      then Inl (RuntimeError (''SCardTransmit failed: 0x'' @ format_X 8 (transmit_rv p)))
      else decode (response p))"

text \<open>
  Lines 67-82: what \<open>_read_uid_windows\<close> raises when \<open>SCardConnectW\<close> fails.
  \<open>rv & 0xFFFFFFFF\<close> on a Python integer is the bitwise conjunction of unbounded
  two's-complement integers, which is \<open>AND\<close> on \<open>int\<close>.
\<close>

definition windows_connect_failure :: "int \<Rightarrow> exn" where
  "windows_connect_failure rv =
     (let rv_unsigned = rv AND 0xFFFFFFFF
      in if rv_unsigned = SCARD_W_REMOVED_CARD \<or> rv_unsigned = SCARD_E_NO_SMARTCARD
         then NoCardDetectedError ''No smart card present or card removed.''
         else RuntimeError
           (''SCardConnect failed: 0x'' @ format_X 8 rv @ '' ('' @ format_d rv @ '')''))"

text \<open>Lines 45-108 of \<open>_read_uid_windows\<close>: the body of the outer \<open>try\<close>.\<close>

definition windows_session :: "pcsc \<Rightarrow> (exn + string) run" where
  "windows_session p =
     (if list_size_rv p \<noteq> SCARD_S_SUCCESS
      then ([ListReaders (list_size_rv p)],
            Inl (RuntimeError (''SCardListReaders(size) failed: 0x'' @ format_X 8 (list_size_rv p))))
      else if list_rv p \<noteq> SCARD_S_SUCCESS
      then ([ListReaders (list_size_rv p), ListReaders (list_rv p)],
            Inl (RuntimeError (''SCardListReaders failed: 0x'' @ format_X 8 (list_rv p))))
      else
        (case reader_names (list_buf p) of
           [] \<Rightarrow> ([ListReaders (list_size_rv p), ListReaders (list_rv p)],
                  Inl (RuntimeError ''No PC/SC readers found''))
         | reader # _ \<Rightarrow>
             if connect_rv p \<noteq> SCARD_S_SUCCESS
             then ([ListReaders (list_size_rv p), ListReaders (list_rv p),
                    Connect reader (connect_rv p)],
                   Inl (windows_connect_failure (connect_rv p)))
             else after [ListReaders (list_size_rv p), ListReaders (list_rv p),
                         Connect reader (connect_rv p)]
                    (try_finally (transmit_get_uid p) [Disconnect])))"

definition read_uid_windows :: "pcsc \<Rightarrow> (exn + string) run" where
  "read_uid_windows p =
     (case load_error p of
        Some msg \<Rightarrow> ([], Inl (OSError msg))
      | None \<Rightarrow>
          if establish_rv p \<noteq> SCARD_S_SUCCESS
          then ([EstablishContext (establish_rv p)],
                Inl (RuntimeError (''SCardEstablishContext failed: 0x'' @ format_X 8 (establish_rv p))))
          else after [EstablishContext (establish_rv p)]
                 (try_finally (windows_session p) [ReleaseContext]))"

text \<open>
  Lines 282-331 of \<open>_read_uid_macos\<close>. Reader names are byte strings here; the
  comprehension decodes every non-empty piece and raises \<open>UnicodeDecodeError\<close> on one the
  codec rejects; the first name, encoded again, is the bytes it was decoded from. A failed
  connect raises \<open>RuntimeError\<close> whatever the status code.
\<close>

definition macos_session :: "pcsc \<Rightarrow> (exn + string) run" where
  "macos_session p =
     (if list_size_rv p \<noteq> SCARD_S_SUCCESS
      then ([ListReaders (list_size_rv p)],
            Inl (RuntimeError (''SCardListReaders(size) failed: 0x'' @ format_X 8 (list_size_rv p))))
      else if list_rv p \<noteq> SCARD_S_SUCCESS
      then ([ListReaders (list_size_rv p), ListReaders (list_rv p)],
            Inl (RuntimeError (''SCardListReaders failed: 0x'' @ format_X 8 (list_rv p))))
      else if \<not> list_all (utf8_ok p) (reader_names (list_buf p))
      then ([ListReaders (list_size_rv p), ListReaders (list_rv p)], Inl UnicodeDecodeError)
      else
        (case reader_names (list_buf p) of
           [] \<Rightarrow> ([ListReaders (list_size_rv p), ListReaders (list_rv p)],
                  Inl (RuntimeError ''No PC/SC readers found''))
         | reader # _ \<Rightarrow>
             if connect_rv p \<noteq> SCARD_S_SUCCESS
             then ([ListReaders (list_size_rv p), ListReaders (list_rv p),
                    Connect reader (connect_rv p)],
                   Inl (RuntimeError (''SCardConnect failed: 0x'' @ format_X 8 (connect_rv p))))
             else after [ListReaders (list_size_rv p), ListReaders (list_rv p),
                         Connect reader (connect_rv p)]
                    (try_finally (transmit_get_uid p) [Disconnect])))"

definition read_uid_macos :: "pcsc \<Rightarrow> (exn + string) run" where
  "read_uid_macos p =
     (case load_error p of
        Some msg \<Rightarrow> ([], Inl (OSError msg))
      | None \<Rightarrow>
          if establish_rv p \<noteq> SCARD_S_SUCCESS
          then ([EstablishContext (establish_rv p)],
                Inl (RuntimeError (''SCardEstablishContext failed: 0x'' @ format_X 8 (establish_rv p))))
          else after [EstablishContext (establish_rv p)]
                 (try_finally (macos_session p) [ReleaseContext]))"

text \<open>\<open>read_uid_hex\<close>, lines 19-24; \<open>platform\<close> is \<open>sys.platform\<close>.\<close>

definition read_uid_hex :: "string \<Rightarrow> pcsc \<Rightarrow> (exn + string) run" where
  "read_uid_hex platform p =
     (if prefix ''win'' platform then read_uid_windows p
      else if platform = ''darwin'' then read_uid_macos p
      else ([], Inl (RuntimeError ''This build supports Windows and macOS only.'')))"

section \<open>The event-driven reader\<close>

text \<open>
  \<open>SCARD_READERSTATE\<close> with the fields the module reads or writes (it never looks at
  \<open>pvUserData\<close>, \<open>cbAtr\<close> or \<open>rgbAtr\<close>), and the fields of an \<open>NFCReader\<close> object
  that \<open>wait_for_card\<close> and \<open>read_uid\<close> use: \<open>reader_states\<close> is the one-element
  array, held as its element.
\<close>

record SCARD_READERSTATE =
  szReader :: "string option"
  dwCurrentState :: dword
  dwEventState :: dword

record NFCReader =
  reader_name :: "string option"
  reader_states :: SCARD_READERSTATE

text \<open>\<open>not self.reader_name\<close>: true of \<open>None\<close> and of the empty string.\<close>

definition no_reader :: "string option \<Rightarrow> bool" where
  "no_reader name = (case name of None \<Rightarrow> True | Some s \<Rightarrow> s = [])"

text \<open>\<open>_get_readers\<close>, lines 160-171: a failed listing is an empty list.\<close>

definition get_readers :: "pcsc \<Rightarrow> (string list) run" where
  "get_readers p =
     (if list_size_rv p \<noteq> 0 then ([ListReaders (list_size_rv p)], [])
      else if list_rv p \<noteq> 0 then ([ListReaders (list_size_rv p), ListReaders (list_rv p)], [])
      else ([ListReaders (list_size_rv p), ListReaders (list_rv p)], reader_names (list_buf p)))"

text \<open>
  Step 1 of \<open>wait_for_card\<close>, lines 180-187: with no reader known, enumerate; with none
  found the method returns (\<open>None\<close> here), otherwise the first name is stored and the
  watch state starts from \<open>SCARD_STATE_UNAWARE\<close>.
\<close>

definition find_reader :: "pcsc \<Rightarrow> NFCReader \<Rightarrow> (NFCReader option) run" where
  "find_reader p self =
     (if no_reader (reader_name self) then
        (case snd (get_readers p) of
           [] \<Rightarrow> (fst (get_readers p), None)
         | r # _ \<Rightarrow>
             (fst (get_readers p),
              Some (self\<lparr>reader_name := Some r,
                         reader_states := (reader_states self)
                           \<lparr>szReader := Some r, dwCurrentState := SCARD_STATE_UNAWARE\<rparr>\<rparr>)))
      else ([], Some self))"

text \<open>
  Step 2, lines 191-217: the bounded wait and the decision on its status code. The call
  is recorded with the reader name and current state it was given.
\<close>

definition poll :: "pcsc \<Rightarrow> NFCReader \<Rightarrow> (string option \<times> NFCReader) run" where
  "poll p self =
     (let rv = status_rv p;
          calls = [GetStatusChange (szReader (reader_states self))
                     (dwCurrentState (reader_states self)) rv];
          self = self\<lparr>reader_states := (reader_states self)\<lparr>dwEventState := status_event p\<rparr>\<rparr>
      in if rv = 0 then
           let event_state = dwEventState (reader_states self);
               self = self\<lparr>reader_states := (reader_states self)\<lparr>dwCurrentState := event_state\<rparr>\<rparr>
           in if event_state AND SCARD_STATE_PRESENT \<noteq> 0 then (calls, Some ''present'', self)
              else if event_state AND SCARD_STATE_EMPTY \<noteq> 0 then (calls, Some ''empty'', self)
              else if event_state AND SCARD_STATE_UNAVAILABLE \<noteq> 0
              then (calls, Some ''unavailable'', self\<lparr>reader_name := None\<rparr>)
              else (calls, None, self)
         else if rv = 0x8010000A then (calls, None, self)
         else (calls, None, self\<lparr>reader_name := None\<rparr>))"

definition wait_for_card :: "pcsc \<Rightarrow> NFCReader \<Rightarrow> (string option \<times> NFCReader) run" where
  "wait_for_card p self =
     (case snd (find_reader p self) of
        None \<Rightarrow> (fst (find_reader p self), None, self)
      | Some self' \<Rightarrow> after (fst (find_reader p self)) (poll p self'))"

text \<open>
  \<open>read_uid\<close>, lines 219-260. The method has no \<open>raise\<close> and no \<open>except\<close>; its result
  type still has room for an exception, so that returning \<open>None\<close> rather than raising is
  a statement about the function and not about its type.
\<close>

definition read_uid :: "pcsc \<Rightarrow> NFCReader \<Rightarrow> (exn + string option) run" where
  "read_uid p self =
     (case reader_name self of
        None \<Rightarrow> ([], Inr None)
      | Some name \<Rightarrow>
          if name = [] then ([], Inr None)
          else if connect_rv p \<noteq> 0 then ([Connect name (connect_rv p)], Inr None)
          else after [Connect name (connect_rv p)]
                 (try_finally
                    ([Transmit GET_UID (transmit_rv p)],
                     if transmit_rv p = 0
                     then (case read_uid_decode (response p) of
                             Some uid \<Rightarrow> Inr (Some uid)
                           | None \<Rightarrow> Inr None)
                     else Inr None)
                    [Disconnect]))"

section \<open>Properties of runs\<close>

text \<open>
  Handle accounting over the calls of a run: which of the context and the card connection
  is open after them. A context opens on a successful \<open>EstablishContext\<close> and closes on
  \<open>ReleaseContext\<close>; a connection opens on a successful \<open>Connect\<close> and closes on
  \<open>Disconnect\<close>. Releasing the context while a connection is open breaks the order of
  release and gives \<open>None\<close>.
\<close>

fun handles :: "call list \<Rightarrow> bool \<times> bool \<Rightarrow> (bool \<times> bool) option" where
  "handles [] h = Some h"
| "handles (EstablishContext rv # cs) (ctx, conn) = handles cs (ctx \<or> rv = 0, conn)"
| "handles (Connect r rv # cs) (ctx, conn) = handles cs (ctx, conn \<or> rv = 0)"
| "handles (Disconnect # cs) (ctx, conn) = handles cs (ctx, False)"
| "handles (ReleaseContext # cs) (ctx, conn) = (if conn then None else handles cs (False, conn))"
| "handles (ListReaders rv # cs) h = handles cs h"
| "handles (Transmit cmd rv # cs) h = handles cs h"
| "handles (GetStatusChange n c rv # cs) h = handles cs h"

text \<open>
  The taxonomy of section 7 of the specification, laid over the steps of the one-shot
  flow of its section 4.4: \<open>fault_kind\<close> goes through the steps in their order and names
  the kind of the first one that fails (\<open>None\<close> when the read succeeds). An unsupported
  platform, a library that does not load and a context that cannot be established are
  \<open>SubsystemUnavailable\<close>; an empty enumeration is \<open>NoReaderFound\<close>; a failed connect
  is \<open>NoCardDetected\<close> when its status code, normalised to unsigned 32 bits, is one of
  the two no-card codes, on whichever platform, and a \<open>RuntimeFailure\<close> otherwise; a
  response shorter than two bytes is \<open>ShortResponse\<close> and one with another status word
  \<open>CardCommandError\<close>. A failure the taxonomy does not name (a failed listing or
  transmit, a reader name that does not decode where names are decoded) is a
  \<open>RuntimeFailure\<close>.
\<close>

datatype kind =
    SubsystemUnavailable
  | NoReaderFound
  | NoCardDetected
  | CardCommandError
  | ShortResponse
  | RuntimeFailure

definition no_card_code :: "int \<Rightarrow> bool" where
  "no_card_code rv = (rv AND 0xFFFFFFFF = 0x80100069 \<or> rv AND 0xFFFFFFFF = 0x8010000C)"

definition fault_kind :: "string \<Rightarrow> pcsc \<Rightarrow> kind option" where
  "fault_kind platform p =
     (if \<not> prefix ''win'' platform \<and> platform \<noteq> ''darwin'' then Some SubsystemUnavailable
      else if load_error p \<noteq> None then Some SubsystemUnavailable
      else if establish_rv p \<noteq> 0 then Some SubsystemUnavailable
      else if list_size_rv p \<noteq> 0 then Some RuntimeFailure
      else if list_rv p \<noteq> 0 then Some RuntimeFailure
      else if \<not> prefix ''win'' platform \<and> \<not> list_all (utf8_ok p) (reader_names (list_buf p))
      then Some RuntimeFailure
      else if reader_names (list_buf p) = [] then Some NoReaderFound
      else if connect_rv p \<noteq> 0
      then (if no_card_code (connect_rv p) then Some NoCardDetected else Some RuntimeFailure)
      else if transmit_rv p \<noteq> 0 then Some RuntimeFailure
      else if length (response p) < 2 then Some ShortResponse
      else if drop (length (response p) - 2) (response p) \<noteq> [0x90, 0x00]
      then Some CardCommandError
      else None)"

text \<open>
  What a caller can tell from the exception it catches, by its class and the fixed text
  of its message.
\<close>

definition kind_of_exn :: "exn \<Rightarrow> kind" where
  "kind_of_exn e =
     (case e of
        NoCardDetectedError m \<Rightarrow> NoCardDetected
      | OSError m \<Rightarrow> SubsystemUnavailable
      | UnicodeDecodeError \<Rightarrow> RuntimeFailure
      | RuntimeError m \<Rightarrow>
          if m = ''Short response'' then ShortResponse
          else if m = ''No PC/SC readers found'' then NoReaderFound
          else if prefix ''GET_UID failed: SW='' m then CardCommandError
          else if prefix ''SCardEstablishContext failed: 0x'' m then SubsystemUnavailable
          else if m = ''This build supports Windows and macOS only.'' then SubsystemUnavailable
          else RuntimeFailure)"

section \<open>Example inputs\<close>

text \<open>
  A service with one reader and a card on it: every call succeeds, the card answers
  \<open>GET_UID\<close> with four bytes and \<open>90 00\<close>, and the reader state is
  \<open>CHANGED | PRESENT\<close>. The other inputs of the examples are variations of it.
\<close>

definition acr122 :: string where
  "acr122 = ''ACS ACR122 0''"

definition card_present :: pcsc where
  "card_present =
     \<lparr>load_error = None, establish_rv = 0, list_size_rv = 0, list_rv = 0,
      list_buf = acr122 @ [CHR 0x00, CHR 0x00], utf8_ok = (\<lambda>s. True),
      connect_rv = 0, transmit_rv = 0, response = [0x04, 0xA2, 0xB3, 0xC4, 0x90, 0x00],
      status_rv = 0, status_event = 0x22\<rparr>"

text \<open>
  An \<open>NFCReader\<close> as the constructor leaves it (no reader name, a zeroed reader state),
  and one that has seen the card on the reader at its last poll.
\<close>

definition fresh :: NFCReader where
  "fresh =
     \<lparr>reader_name = None,
      reader_states = \<lparr>szReader = None, dwCurrentState = 0, dwEventState = 0\<rparr>\<rparr>"

definition watching :: NFCReader where
  "watching =
     \<lparr>reader_name = Some acr122,
      reader_states = \<lparr>szReader = Some acr122, dwCurrentState = 0x22, dwEventState = 0x22\<rparr>\<rparr>"

section \<open>Formatting lemmas\<close>

lemma upper_nibble_all:
  "list_all (\<lambda>n. upper_char (lower_digits ! n) = upper_digits ! n) [0..<16]"
  by code_simp

lemma upper_nibble: "n < 16 \<Longrightarrow> upper_char (lower_digits ! n) = upper_digits ! n"
  using upper_nibble_all by (simp add: list_all_iff)

lemma byte_div16: "unat (x :: byte) div 16 < 16"
  using unsigned_less [of x, where 'a = nat] by simp

lemma byte_lt256: "unat (x :: byte) < 256"
  using unsigned_less [of x, where 'a = nat] by simp

lemma hex_uppercaseHex: "hex b = uppercaseHex b"
  by (induction b)
    (simp_all add: hex_def uppercaseHex_def str_upper_def bytes_hex_def upper_nibble byte_div16)

lemma length_uppercaseHex: "length (uppercaseHex b) = 2 * length b"
  by (induction b) (simp_all add: uppercaseHex_def)

lemma uppercaseHex_Nil: "uppercaseHex [] = []"
  by (simp add: uppercaseHex_def)

lemma hex_digits_small: "n < 16 \<Longrightarrow> hex_digits n = [upper_digits ! n]"
  by (subst hex_digits.simps) simp

lemma hex_digits_two:
  "\<not> n < 16 \<Longrightarrow> n < 256 \<Longrightarrow>
   hex_digits n = [upper_digits ! (n div 16), upper_digits ! (n mod 16)]"
  by (subst hex_digits.simps) (simp add: hex_digits_small)

lemma upper_digits_0: "upper_digits ! 0 = CHR ''0''"
  by (simp add: upper_digits_def)

lemma format_X_nat:
  "n < 256 \<Longrightarrow> format_X 2 (int n) = [upper_digits ! (n div 16), upper_digits ! (n mod 16)]"
proof (cases "n < 16")
  case True
  then have "hex_digits n = [upper_digits ! n]" by (rule hex_digits_small)
  moreover from True have "n div 16 = 0" "n mod 16 = n" by simp_all
  ultimately show ?thesis
    by (simp add: format_X_def zfill_def upper_digits_0)
next
  case False
  assume "n < 256"
  with False have "hex_digits n = [upper_digits ! (n div 16), upper_digits ! (n mod 16)]"
    by (rule hex_digits_two)
  then show ?thesis
    by (simp add: format_X_def zfill_def)
qed

lemma format_X_byte:
  "format_X 2 (uint (x::byte)) = [upper_digits ! (unat x div 16), upper_digits ! (unat x mod 16)]"
proof -
  have "uint x = int (unat x)" by simp
  then show ?thesis using format_X_nat [OF byte_lt256 [of x]] by simp
qed

section \<open>The decode step\<close>

lemma last_two:
  "2 \<le> length xs \<Longrightarrow> drop (length xs - 2) xs = [xs ! (length xs - 2), xs ! (length xs - 1)]"
proof -
  assume len: "2 \<le> length xs"
  then have a: "Suc (length xs - 2) = length xs - 1" by simp
  show ?thesis
    apply (rule nth_equalityI)
    using len apply simp
    subgoal for i using len a by (cases i) simp_all
    done
qed

lemma decode_accept: "decode (data @ [0x90, 0x00]) = Inr (hex data)"
  by (simp add: decode_def nth_append)

lemma decode_short: "length resp < 2 \<Longrightarrow> decode resp = Inl (RuntimeError ''Short response'')"
  by (simp add: decode_def)

lemma decode_long:
  "2 \<le> length resp \<Longrightarrow>
   decode resp =
     (if drop (length resp - 2) resp = [0x90, 0x00] then Inr (hex (take (length resp - 2) resp))
      else Inl (RuntimeError (''GET_UID failed: SW='' @ uppercaseHex (drop (length resp - 2) resp))))"
  by (simp add: decode_def last_two format_X_byte uppercaseHex_def Let_def)

text \<open>
  C5. A response that ends in \<open>90 00\<close> decodes to the hexadecimal string of the bytes
  before the status word: the module's \<open>_hex\<close> of them, which is the upper-case
  two-digits-per-byte string, of length twice the response length less two. The response
  \<open>90 00\<close> alone decodes to the empty string.
\<close>

theorem decode_trailing_9000:
  "decode (data @ [0x90, 0x00]) = Inr (hex data) \<and> hex data = uppercaseHex data \<and>
   length (hex data) = 2 * (length (data @ [0x90, 0x00]) - 2) \<and>
   decode [0x90, 0x00] = Inr []"
  using decode_accept [of data] decode_accept [of "[]"]
  by (simp add: hex_uppercaseHex length_uppercaseHex uppercaseHex_Nil)

text \<open>
  C6. Decoding succeeds exactly on the responses of length at least 2 whose last two bytes
  are \<open>90 00\<close>. A response of length 0 or 1 raises the short-response error; a longer one
  with another status word raises the command error, whose message ends in the two status
  bytes in hexadecimal.
\<close>

theorem decode_succeeds_iff:
  "((\<exists>uid. decode resp = Inr uid) \<longleftrightarrow>
      (2 \<le> length resp \<and> drop (length resp - 2) resp = [0x90, 0x00])) \<and>
   (length resp < 2 \<longrightarrow> decode resp = Inl (RuntimeError ''Short response'')) \<and>
   (2 \<le> length resp \<and> drop (length resp - 2) resp \<noteq> [0x90, 0x00] \<longrightarrow>
      decode resp =
        Inl (RuntimeError (''GET_UID failed: SW='' @ uppercaseHex (drop (length resp - 2) resp))))"
proof (cases "length resp < 2")
  case True
  then show ?thesis by (simp add: decode_short)
next
  case False
  then have "2 \<le> length resp" by simp
  then show ?thesis by (simp add: decode_long)
qed

theorem decode_succeeds_iff_witness:
  "decode [0x04] = Inl (RuntimeError ''Short response'') \<and>
   decode [0x04, 0x6A, 0x81] = Inl (RuntimeError ''GET_UID failed: SW=6A81'') \<and>
   (\<exists>uid. decode [0x04, 0x90, 0x00] = Inr uid)"
  using decode_succeeds_iff [of "[0x04]"] decode_succeeds_iff [of "[0x04, 0x6A, 0x81]"]
    decode_succeeds_iff [of "[0x04, 0x90, 0x00]"]
  by (simp add: uppercaseHex_def upper_digits_def)

text \<open>
  C10. On a response of length at least 2 the decoding of the one-shot readers (the last
  two bytes compared as a pair) and the decoding of \<open>NFCReader.read_uid\<close> (the suffix
  compared with \<open>90 00\<close>) accept the same responses and give the same string.
\<close>

theorem decoders_agree:
  "2 \<le> length resp \<Longrightarrow> (decode resp = Inr uid \<longleftrightarrow> read_uid_decode resp = Some uid)"
  by (simp add: decode_long read_uid_decode_def)

theorem decoders_agree_witness:
  "2 \<le> length [0x04 :: byte, 0xA2, 0x90, 0x00] \<and>
   decode [0x04, 0xA2, 0x90, 0x00] = Inr ''04A2'' \<and>
   read_uid_decode [0x04, 0xA2, 0x90, 0x00] = Some ''04A2''"
proof -
  have d: "decode [0x04, 0xA2, 0x90, 0x00] = Inr ''04A2''" by code_simp
  have l: "2 \<le> length [0x04 :: byte, 0xA2, 0x90, 0x00]" by simp
  from decoders_agree [OF l, of "''04A2''"] d l show ?thesis by simp
qed

section \<open>The polling state machine\<close>

lemma present_bit: "(w :: dword) AND SCARD_STATE_PRESENT \<noteq> 0 \<longleftrightarrow> bit w 5"
  using and_exp_eq_0_iff_not_bit [of w 5] by (simp add: SCARD_STATE_PRESENT_def)

lemma empty_bit: "(w :: dword) AND SCARD_STATE_EMPTY \<noteq> 0 \<longleftrightarrow> bit w 4"
  using and_exp_eq_0_iff_not_bit [of w 4] by (simp add: SCARD_STATE_EMPTY_def)

lemma unavailable_bit: "(w :: dword) AND SCARD_STATE_UNAVAILABLE \<noteq> 0 \<longleftrightarrow> bit w 3"
  using and_exp_eq_0_iff_not_bit [of w 3] by (simp add: SCARD_STATE_UNAVAILABLE_def)

lemma get_readers_calls: "GetStatusChange n c rv \<notin> set (fst (get_readers p))"
  by (simp add: get_readers_def)

lemma find_reader_calls:
  "fst (find_reader p self) = (if no_reader (reader_name self) then fst (get_readers p) else [])"
  by (simp add: find_reader_def split: list.split)

lemma poll_calls:
  "fst (poll p self) =
     [GetStatusChange (szReader (reader_states self)) (dwCurrentState (reader_states self))
        (status_rv p)]"
  by (simp add: poll_def Let_def)

lemma poll_token_ok:
  "status_rv p = 0 \<Longrightarrow>
   fst (snd (poll p self)) =
     (if bit (status_event p) 5 then Some ''present''
      else if bit (status_event p) 4 then Some ''empty''
      else if bit (status_event p) 3 then Some ''unavailable''
      else None)"
  by (simp add: poll_def Let_def present_bit empty_bit unavailable_bit)

lemma poll_state_ok:
  "status_rv p = 0 \<Longrightarrow>
   snd (snd (poll p self)) =
     self\<lparr>reader_name :=
             (if \<not> bit (status_event p) 5 \<and> \<not> bit (status_event p) 4 \<and> bit (status_event p) 3
              then None else reader_name self),
          reader_states := (reader_states self)
            \<lparr>dwCurrentState := status_event p, dwEventState := status_event p\<rparr>\<rparr>"
  by (simp add: poll_def Let_def present_bit empty_bit unavailable_bit)

lemma poll_timeout:
  "status_rv p = 0x8010000A \<Longrightarrow>
   snd (poll p self) =
     (None, self\<lparr>reader_states := (reader_states self)\<lparr>dwEventState := status_event p\<rparr>\<rparr>)"
  by (simp add: poll_def Let_def)

lemma poll_other:
  "status_rv p \<noteq> 0 \<Longrightarrow> status_rv p \<noteq> 0x8010000A \<Longrightarrow>
   snd (poll p self) =
     (None, self\<lparr>reader_name := None,
                 reader_states := (reader_states self)\<lparr>dwEventState := status_event p\<rparr>\<rparr>)"
  by (simp add: poll_def Let_def)

lemma wait_for_card_reached:
  "GetStatusChange n c rv \<in> set (fst (wait_for_card p self)) \<Longrightarrow>
   \<exists>known. snd (find_reader p self) = Some known \<and>
     wait_for_card p self = after (fst (find_reader p self)) (poll p known) \<and>
     rv = status_rv p \<and> n = szReader (reader_states known) \<and>
     c = dwCurrentState (reader_states known)"
  by (cases "snd (find_reader p self)")
    (auto simp: wait_for_card_def after_def find_reader_calls poll_calls get_readers_calls)

text \<open>
  With a reader known and the status code \<open>0x8010000A\<close> itself, the poll returns nothing
  and keeps the reader name and the current state.
\<close>

lemma wait_for_card_timeout_unsigned:
  assumes "\<not> no_reader (reader_name self)" and "status_rv p = 0x8010000A"
  shows "fst (snd (wait_for_card p self)) = None"
    and "reader_name (snd (snd (wait_for_card p self))) = reader_name self"
    and "dwCurrentState (reader_states (snd (snd (wait_for_card p self)))) =
           dwCurrentState (reader_states self)"
  using assms(1)
  by (simp_all add: wait_for_card_def find_reader_def after_def poll_timeout [OF assms(2)])

lemma unavailable_forgets:
  "fst (snd (wait_for_card p self)) = Some ''unavailable'' \<Longrightarrow>
   reader_name (snd (snd (wait_for_card p self))) = None"
  by (cases "snd (find_reader p self)")
    (auto simp: wait_for_card_def after_def poll_def Let_def split: if_splits)

lemma other_status_forgets:
  assumes "GetStatusChange n c (status_rv p) \<in> set (fst (wait_for_card p self))"
    and "status_rv p \<noteq> 0" and "status_rv p \<noteq> 0x8010000A"
  shows "reader_name (snd (snd (wait_for_card p self))) = None"
proof -
  from wait_for_card_reached [OF assms(1)] obtain known where
    w: "wait_for_card p self = after (fst (find_reader p self)) (poll p known)" by auto
  show ?thesis by (simp add: w after_def poll_other [OF assms(2,3)])
qed

lemma rediscovery:
  assumes "reader_name s = None"
  shows "fst (wait_for_card q s) =
           fst (get_readers q) @
           (case snd (get_readers q) of [] \<Rightarrow> []
            | r # _ \<Rightarrow> [GetStatusChange (Some r) SCARD_STATE_UNAWARE (status_rv q)])"
    and "snd (get_readers q) = [] \<Longrightarrow> snd (wait_for_card q s) = (None, s)"
  using assms
  by (auto simp: wait_for_card_def find_reader_def no_reader_def after_def poll_calls
      split: list.splits)

lemma reader_names_acr122: "reader_names (acr122 @ [CHR 0x00, CHR 0x00]) = [acr122]"
  by (simp add: reader_names_def acr122_def)

lemma get_readers_card_present:
  "list_size_rv p = 0 \<Longrightarrow> list_rv p = 0 \<Longrightarrow> list_buf p = acr122 @ [CHR 0x00, CHR 0x00] \<Longrightarrow>
   get_readers p = ([ListReaders 0, ListReaders 0], [acr122])"
  by (simp add: get_readers_def reader_names_acr122)

text \<open>
  C3. When the bounded wait was issued and returned status 0, the token follows the event
  state the service wrote, by priority: \<open>PRESENT\<close> (bit 5, \<open>0x20\<close>), then \<open>EMPTY\<close>
  (bit 4, \<open>0x10\<close>), then \<open>UNAVAILABLE\<close> (bit 3, \<open>0x08\<close>), else nothing; in every branch the
  event state is the new current state, and with \<open>unavailable\<close> the reader name is
  forgotten.
\<close>

theorem wait_for_card_success:
  assumes "GetStatusChange n c 0 \<in> set (fst (wait_for_card p self))"
  shows "(let self' = snd (snd (wait_for_card p self));
              event_state = dwEventState (reader_states self')
          in event_state = status_event p \<and>
             fst (snd (wait_for_card p self)) =
               (if bit event_state 5 then Some ''present''
                else if bit event_state 4 then Some ''empty''
                else if bit event_state 3 then Some ''unavailable''
                else None) \<and>
             dwCurrentState (reader_states self') = event_state \<and>
             (fst (snd (wait_for_card p self)) = Some ''unavailable'' \<longrightarrow>
                reader_name self' = None))"
proof -
  from wait_for_card_reached [OF assms] obtain known where
    w: "wait_for_card p self = after (fst (find_reader p self)) (poll p known)"
    and rv: "status_rv p = 0" by auto
  show ?thesis
    by (simp add: w after_def Let_def poll_token_ok [OF rv] poll_state_ok [OF rv])
qed


lemma card_present_sel:
  "load_error card_present = None" "establish_rv card_present = 0"
  "list_size_rv card_present = 0" "list_rv card_present = 0"
  "list_buf card_present = acr122 @ [CHR 0x00, CHR 0x00]"
  "connect_rv card_present = 0" "transmit_rv card_present = 0"
  "response card_present = [0x04, 0xA2, 0xB3, 0xC4, 0x90, 0x00]"
  "status_rv card_present = 0" "status_event card_present = 0x22"
  "utf8_ok card_present = (\<lambda>s. True)"
  by (simp_all add: card_present_def)

lemma get_readers_example: "get_readers card_present = ([ListReaders 0, ListReaders 0], [acr122])"
  by (rule get_readers_card_present) (simp_all add: card_present_sel)

theorem wait_for_card_success_witness:
  "GetStatusChange (Some acr122) SCARD_STATE_UNAWARE 0 \<in> set (fst (wait_for_card card_present fresh)) \<and>
   fst (snd (wait_for_card card_present fresh)) = Some ''present'' \<and>
   dwCurrentState (reader_states (snd (snd (wait_for_card card_present fresh)))) = 0x22"
proof -
  have n: "reader_name fresh = None" by (simp add: fresh_def)
  have c: "fst (wait_for_card card_present fresh) =
      [ListReaders 0, ListReaders 0, GetStatusChange (Some acr122) SCARD_STATE_UNAWARE 0]"
    using rediscovery(1) [OF n, of card_present]
    by (simp add: get_readers_example card_present_sel)
  then have h: "GetStatusChange (Some acr122) SCARD_STATE_UNAWARE 0
      \<in> set (fst (wait_for_card card_present fresh))" by simp
  have b: "bit (0x22 :: dword) 5" by simp
  show ?thesis
    using wait_for_card_success [OF h] h b by (simp add: Let_def card_present_sel)
qed


text \<open>
  C9. After a poll that returned \<open>unavailable\<close>, or whose bounded wait returned a status
  other than 0 and \<open>0x8010000A\<close>, the reader name is forgotten; the next poll, whatever
  the service answers, first enumerates the readers and, when it finds one, waits on the
  first name of that enumeration with the current state \<open>SCARD_STATE_UNAWARE\<close>; when it
  finds none it returns nothing and leaves the object as it was.
\<close>

theorem forgotten_reader_is_rediscovered:
  assumes "fst (snd (wait_for_card p self)) = Some ''unavailable'' \<or>
           ((\<exists>n c. GetStatusChange n c (status_rv p) \<in> set (fst (wait_for_card p self))) \<and>
            status_rv p \<noteq> 0 \<and> status_rv p \<noteq> 0x8010000A)"
  shows "(let self' = snd (snd (wait_for_card p self))
          in reader_name self' = None \<and>
             fst (wait_for_card q self') =
               fst (get_readers q) @
               (case snd (get_readers q) of [] \<Rightarrow> []
                | r # _ \<Rightarrow> [GetStatusChange (Some r) SCARD_STATE_UNAWARE (status_rv q)]) \<and>
             fst (get_readers q) \<noteq> [] \<and>
             (snd (get_readers q) = [] \<longrightarrow> snd (wait_for_card q self') = (None, self')))"
proof -
  have "reader_name (snd (snd (wait_for_card p self))) = None"
    using assms unavailable_forgets other_status_forgets by blast
  moreover have "fst (get_readers q) \<noteq> []" by (simp add: get_readers_def)
  ultimately show ?thesis
    using rediscovery by (simp add: Let_def)
qed

lemma watching_sel:
  "reader_name watching = Some acr122" "szReader (reader_states watching) = Some acr122"
  "dwCurrentState (reader_states watching) = 0x22"
  by (simp_all add: watching_def)

lemma wait_for_card_known:
  "\<not> no_reader (reader_name self) \<Longrightarrow> wait_for_card p self = poll p self"
  by (simp add: wait_for_card_def find_reader_def after_def)

lemma wait_for_card_watching: "wait_for_card p watching = poll p watching"
  by (rule wait_for_card_known) (simp add: watching_def no_reader_def acr122_def)

theorem forgotten_reader_is_rediscovered_witness:
  "fst (snd (wait_for_card (card_present\<lparr>status_event := 0x0A\<rparr>) watching)) = Some ''unavailable'' \<and>
   reader_name (snd (snd (wait_for_card (card_present\<lparr>status_event := 0x0A\<rparr>) watching))) = None \<and>
   fst (wait_for_card card_present
          (snd (snd (wait_for_card (card_present\<lparr>status_event := 0x0A\<rparr>) watching)))) =
     [ListReaders 0, ListReaders 0, GetStatusChange (Some acr122) SCARD_STATE_UNAWARE 0]"
proof -
  have rv: "status_rv (card_present\<lparr>status_event := 0x0A\<rparr>) = 0"
    by (simp add: card_present_sel)
  have b: "\<not> bit (0x0A :: dword) 5" "\<not> bit (0x0A :: dword) 4" "bit (0x0A :: dword) 3"
    by simp_all
  have t: "fst (snd (wait_for_card (card_present\<lparr>status_event := 0x0A\<rparr>) watching)) =
      Some ''unavailable''"
    by (simp add: wait_for_card_watching poll_token_ok [OF rv] b)
  show ?thesis
    using forgotten_reader_is_rediscovered [of "card_present\<lparr>status_event := 0x0A\<rparr>" watching
        card_present] t
    by (simp add: Let_def get_readers_example card_present_sel)
qed

text \<open>
  C4. \<open>read_uid\<close> never raises, and it returns \<open>None\<close> when no reader is known, when
  the connect or the transmit fails, when the response is shorter than two bytes and when
  its status word is not \<open>90 00\<close>.
\<close>

theorem read_uid_absent_on_failure:
  "(\<exists>r. snd (read_uid p self) = Inr r) \<and>
   (no_reader (reader_name self) \<or> connect_rv p \<noteq> 0 \<or> transmit_rv p \<noteq> 0 \<or>
    length (response p) < 2 \<or>
    drop (length (response p) - 2) (response p) \<noteq> [0x90, 0x00] \<longrightarrow>
      snd (read_uid p self) = Inr None)"
  by (auto simp: read_uid_def no_reader_def after_def try_finally_def read_uid_decode_def
      split: option.splits)

theorem read_uid_absent_on_failure_witness:
  "snd (read_uid card_present fresh) = Inr None \<and>
   snd (read_uid (card_present\<lparr>connect_rv := 0x8010000C\<rparr>) watching) = Inr None \<and>
   snd (read_uid (card_present\<lparr>transmit_rv := 6\<rparr>) watching) = Inr None \<and>
   snd (read_uid (card_present\<lparr>response := [0x90]\<rparr>) watching) = Inr None \<and>
   snd (read_uid (card_present\<lparr>response := [0x6A, 0x81]\<rparr>) watching) = Inr None"
  using read_uid_absent_on_failure [of card_present fresh]
    read_uid_absent_on_failure [of "card_present\<lparr>connect_rv := 0x8010000C\<rparr>" watching]
    read_uid_absent_on_failure [of "card_present\<lparr>transmit_rv := 6\<rparr>" watching]
    read_uid_absent_on_failure [of "card_present\<lparr>response := [0x90]\<rparr>" watching]
    read_uid_absent_on_failure [of "card_present\<lparr>response := [0x6A, 0x81]\<rparr>" watching]
  by (simp add: fresh_def no_reader_def)

lemma read_uid_example:
  "read_uid card_present watching =
     ([Connect acr122 0, Transmit GET_UID 0, Disconnect], Inr (Some ''04A2B3C4''))"
proof -
  have "hex [0x04, 0xA2, 0xB3, 0xC4] = ''04A2B3C4''" by code_simp
  then show ?thesis
    by (simp add: read_uid_def watching_def acr122_def card_present_sel after_def
        try_finally_def read_uid_decode_def)
qed

text \<open>
  C1. \<open>wait_for_card\<close> compares the status code with \<open>0x8010000A\<close> as it comes. When
  the service surfaces the timeout as the signed 32-bit value \<open>-2146435062\<close> (the same
  bit pattern), the comparison fails and the reader name is forgotten, where the one-shot
  reader masks the code with \<open>0xFFFFFFFF\<close> before it compares.
\<close>

theorem timeout_signed_forgets_reader:
  "(- 2146435062 :: int) AND 0xFFFFFFFF = 0x8010000A \<and>
   reader_name watching = Some acr122 \<and>
   wait_for_card (card_present\<lparr>status_rv := - 2146435062\<rparr>) watching =
     ([GetStatusChange (Some acr122) 0x22 (- 2146435062)], None, watching\<lparr>reader_name := None\<rparr>)"
proof -
  have "poll (card_present\<lparr>status_rv := - 2146435062\<rparr>) watching =
     ([GetStatusChange (Some acr122) 0x22 (- 2146435062)], None, watching\<lparr>reader_name := None\<rparr>)"
    by (simp add: poll_def Let_def card_present_sel watching_def)
  then show ?thesis
    by (simp add: wait_for_card_watching watching_sel)
qed

section \<open>The one-shot read\<close>

lemma one_shot_calls_windows:
  "(let calls = fst (read_uid_windows p) in
     handles calls (False, False) = Some (False, False) \<and>
     (EstablishContext 0 \<in> set calls \<longrightarrow>
        last calls = ReleaseContext \<and> count_list calls ReleaseContext = 1) \<and>
     ((\<exists>r. Connect r 0 \<in> set calls) \<longrightarrow>
        drop (length calls - 2) calls = [Disconnect, ReleaseContext] \<and>
        count_list calls Disconnect = 1))"
  by (auto simp: read_uid_windows_def windows_session_def transmit_get_uid_def after_def
      try_finally_def SCARD_S_SUCCESS_def Let_def split: option.splits list.splits)

lemma one_shot_calls_macos:
  "(let calls = fst (read_uid_macos p) in
     handles calls (False, False) = Some (False, False) \<and>
     (EstablishContext 0 \<in> set calls \<longrightarrow>
        last calls = ReleaseContext \<and> count_list calls ReleaseContext = 1) \<and>
     ((\<exists>r. Connect r 0 \<in> set calls) \<longrightarrow>
        drop (length calls - 2) calls = [Disconnect, ReleaseContext] \<and>
        count_list calls Disconnect = 1))"
  by (auto simp: read_uid_macos_def macos_session_def transmit_get_uid_def after_def
      try_finally_def SCARD_S_SUCCESS_def Let_def split: option.splits list.splits)

text \<open>
  C7. In every run of the one-shot read, on either platform and whatever the service
  answers, no handle stays open: the handle accounting of the calls ends with the context
  and the connection closed and never meets a release of the context while a connection
  is open. A context that was established is released, once, by the last call; a
  connection that was opened is disconnected, once, and the run ends with the disconnect
  followed by the release.
\<close>

theorem one_shot_releases_handles:
  "(let calls = fst (read_uid_hex platform p) in
     handles calls (False, False) = Some (False, False) \<and>
     (EstablishContext 0 \<in> set calls \<longrightarrow>
        last calls = ReleaseContext \<and> count_list calls ReleaseContext = 1) \<and>
     ((\<exists>r. Connect r 0 \<in> set calls) \<longrightarrow>
        drop (length calls - 2) calls = [Disconnect, ReleaseContext] \<and>
        count_list calls Disconnect = 1))"
proof (cases "prefix ''win'' platform")
  case True
  then show ?thesis using one_shot_calls_windows [of p] by (simp add: read_uid_hex_def)
next
  case False
  show ?thesis
  proof (cases "platform = ''darwin''")
    case True
    with False show ?thesis using one_shot_calls_macos [of p] by (simp add: read_uid_hex_def)
  next
    case no: False
    with False show ?thesis by (simp add: read_uid_hex_def)
  qed
qed


lemma decode_example: "decode [0x04, 0xA2, 0xB3, 0xC4, 0x90, 0x00] = Inr ''04A2B3C4''"
  by code_simp

lemma read_uid_hex_example:
  "read_uid_hex ''win32'' card_present =
     ([EstablishContext 0, ListReaders 0, ListReaders 0, Connect acr122 0,
       Transmit GET_UID 0, Disconnect, ReleaseContext], Inr ''04A2B3C4'')"
  by (simp add: read_uid_hex_def read_uid_windows_def windows_session_def transmit_get_uid_def
      after_def try_finally_def SCARD_S_SUCCESS_def card_present_sel reader_names_acr122
      decode_example)

theorem one_shot_releases_handles_witness:
  "EstablishContext 0 \<in> set (fst (read_uid_hex ''win32'' card_present)) \<and>
   Connect acr122 0 \<in> set (fst (read_uid_hex ''win32'' card_present)) \<and>
   handles (fst (read_uid_hex ''win32'' card_present)) (False, False) = Some (False, False) \<and>
   last (fst (read_uid_hex ''win32'' card_present)) = ReleaseContext \<and>
   drop (length (fst (read_uid_hex ''win32'' card_present)) - 2)
     (fst (read_uid_hex ''win32'' card_present)) = [Disconnect, ReleaseContext]"
proof -
  have e: "EstablishContext 0 \<in> set (fst (read_uid_hex ''win32'' card_present))"
    and c: "Connect acr122 0 \<in> set (fst (read_uid_hex ''win32'' card_present))"
    by (simp_all add: read_uid_hex_example)
  from c have c': "\<exists>r. Connect r 0 \<in> set (fst (read_uid_hex ''win32'' card_present))" ..
  from one_shot_releases_handles [of "''win32''" card_present] e c c'
  show ?thesis unfolding Let_def by blast
qed

lemma no_card_codes:
  "no_card_code 0x8010000C" "no_card_code 0x80100069"
  "no_card_code (- 2146435060)" "no_card_code (- 2146434967)" "\<not> no_card_code 0x8010000A"
  by (simp_all add: no_card_code_def)

lemma windows_connect_failure_kind:
  "windows_connect_failure rv =
     (if no_card_code rv then NoCardDetectedError ''No smart card present or card removed.''
      else RuntimeError (''SCardConnect failed: 0x'' @ format_X 8 rv @ '' ('' @ format_d rv @ '')''))"
  by (auto simp: windows_connect_failure_def no_card_code_def SCARD_W_REMOVED_CARD_def
      SCARD_E_NO_SMARTCARD_def Let_def)

lemma format_X_neg: "format_X 8 (- 2146435060) = ''-7FEFFFF4''"
  by (simp add: format_X_def zfill_def hex_digits.simps upper_digits_def)

text \<open>
  C2. \<open>_read_uid_windows\<close> masks the status of a failed connect and raises
  \<open>NoCardDetectedError\<close> on the two no-card codes; \<open>_read_uid_macos\<close> has no such
  check. With the same service answers (a connect failing with \<open>0x8010000C\<close>, surfaced
  as the signed \<open>-2146435060\<close>) the macOS reader raises \<open>RuntimeError\<close> and the
  Windows reader \<open>NoCardDetectedError\<close>.
\<close>

theorem macos_connect_no_card_is_runtime_error:
  "(- 2146435060 :: int) AND 0xFFFFFFFF = 0x8010000C \<and>
   read_uid_hex ''darwin'' (card_present\<lparr>connect_rv := - 2146435060\<rparr>) =
     ([EstablishContext 0, ListReaders 0, ListReaders 0, Connect acr122 (- 2146435060),
       ReleaseContext],
      Inl (RuntimeError ''SCardConnect failed: 0x-7FEFFFF4'')) \<and>
   read_uid_hex ''win32'' (card_present\<lparr>connect_rv := - 2146435060\<rparr>) =
     ([EstablishContext 0, ListReaders 0, ListReaders 0, Connect acr122 (- 2146435060),
       ReleaseContext],
      Inl (NoCardDetectedError ''No smart card present or card removed.''))"
  by (simp add: read_uid_hex_def read_uid_macos_def macos_session_def read_uid_windows_def
      windows_session_def after_def try_finally_def SCARD_S_SUCCESS_def card_present_sel
      reader_names_acr122 format_X_neg windows_connect_failure_kind no_card_codes)


lemma kind_of_messages:
  "kind_of_exn (RuntimeError ''Short response'') = ShortResponse"
  "kind_of_exn (RuntimeError ''No PC/SC readers found'') = NoReaderFound"
  "kind_of_exn (RuntimeError (''GET_UID failed: SW='' @ x)) = CardCommandError"
  "kind_of_exn (RuntimeError (''SCardEstablishContext failed: 0x'' @ x)) = SubsystemUnavailable"
  "kind_of_exn (RuntimeError ''This build supports Windows and macOS only.'') = SubsystemUnavailable"
  "kind_of_exn (RuntimeError (''SCardListReaders(size) failed: 0x'' @ x)) = RuntimeFailure"
  "kind_of_exn (RuntimeError (''SCardListReaders failed: 0x'' @ x)) = RuntimeFailure"
  "kind_of_exn (RuntimeError (''SCardConnect failed: 0x'' @ x)) = RuntimeFailure"
  "kind_of_exn (RuntimeError (''SCardTransmit failed: 0x'' @ x)) = RuntimeFailure"
  "kind_of_exn (NoCardDetectedError m) = NoCardDetected"
  "kind_of_exn (OSError m) = SubsystemUnavailable"
  "kind_of_exn UnicodeDecodeError = RuntimeFailure"
  by (simp_all add: kind_of_exn_def)

lemma decode_kind:
  "decode resp =
     (if length resp < 2 then Inl (RuntimeError ''Short response'')
      else if drop (length resp - 2) resp \<noteq> [0x90, 0x00]
      then Inl (RuntimeError (''GET_UID failed: SW='' @ uppercaseHex (drop (length resp - 2) resp)))
      else Inr (hex (take (length resp - 2) resp)))"
  by (simp add: decode_short decode_long)

lemma transmit_kind:
  "snd (transmit_get_uid p) =
     (if transmit_rv p \<noteq> 0
      then Inl (RuntimeError (''SCardTransmit failed: 0x'' @ format_X 8 (transmit_rv p)))
      else decode (response p))"
  by (simp add: transmit_get_uid_def SCARD_S_SUCCESS_def)

lemma session_cases:
  obtains (load) m where "load_error p = Some m"
  | (establish) "load_error p = None" "establish_rv p \<noteq> 0"
  | (list_size) "load_error p = None" "establish_rv p = 0" "list_size_rv p \<noteq> 0"
  | (list) "load_error p = None" "establish_rv p = 0" "list_size_rv p = 0" "list_rv p \<noteq> 0"
  | (listed) "load_error p = None" "establish_rv p = 0" "list_size_rv p = 0" "list_rv p = 0"
  by (cases "load_error p") auto

lemma connected_cases:
  obtains (transmit) "transmit_rv p \<noteq> 0"
  | (short) "transmit_rv p = 0" "length (response p) < 2"
  | (status) "transmit_rv p = 0" "2 \<le> length (response p)"
      "drop (length (response p) - 2) (response p) \<noteq> [0x90, 0x00]"
  | (good) "transmit_rv p = 0" "2 \<le> length (response p)"
      "drop (length (response p) - 2) (response p) = [0x90, 0x00]"
  by (cases "transmit_rv p = 0"; cases "length (response p) < 2") auto

lemma transmit_raises:
  assumes "(if transmit_rv p \<noteq> 0 then Some RuntimeFailure
            else if length (response p) < 2 then Some ShortResponse
            else if drop (length (response p) - 2) (response p) \<noteq> [0x90, 0x00]
            then Some CardCommandError else None) = Some k"
  shows "\<exists>e. snd (transmit_get_uid p) = Inl e \<and> kind_of_exn e = k"
proof (cases p rule: connected_cases)
  case transmit
  with assms show ?thesis by (simp add: transmit_kind kind_of_exn_def)
next
  case short
  with assms show ?thesis by (simp add: transmit_kind decode_short kind_of_exn_def)
next
  case status
  with assms show ?thesis by (simp add: transmit_kind decode_long kind_of_exn_def)
next
  case good
  with assms show ?thesis by simp
qed

lemma windows_raises:
  assumes win: "prefix ''win'' platform" and fk: "fault_kind platform p = Some k"
  shows "\<exists>e. snd (read_uid_windows p) = Inl e \<and> kind_of_exn e = k"
proof (cases p rule: session_cases)
  case (load m)
  with win fk show ?thesis
    by (simp add: fault_kind_def read_uid_windows_def kind_of_exn_def)
next
  case establish
  with win fk show ?thesis
    by (simp add: fault_kind_def read_uid_windows_def SCARD_S_SUCCESS_def kind_of_exn_def)
next
  case list_size
  with win fk show ?thesis
    by (simp add: fault_kind_def read_uid_windows_def windows_session_def after_def
        try_finally_def SCARD_S_SUCCESS_def kind_of_exn_def)
next
  case list
  with win fk show ?thesis
    by (simp add: fault_kind_def read_uid_windows_def windows_session_def after_def
        try_finally_def SCARD_S_SUCCESS_def kind_of_exn_def)
next
  case listed
  show ?thesis
  proof (cases "reader_names (list_buf p)")
    case Nil
    with listed win fk show ?thesis
      by (simp add: fault_kind_def read_uid_windows_def windows_session_def after_def
          try_finally_def SCARD_S_SUCCESS_def kind_of_exn_def)
  next
    case (Cons r rs)
    show ?thesis
    proof (cases "connect_rv p = 0")
      case False
      with Cons listed win fk show ?thesis
        by (cases "no_card_code (connect_rv p)")
          (simp_all add: fault_kind_def read_uid_windows_def windows_session_def after_def
            try_finally_def SCARD_S_SUCCESS_def windows_connect_failure_kind kind_of_exn_def)
    next
      case True
      with Cons listed win fk have
        "(if transmit_rv p \<noteq> 0 then Some RuntimeFailure
          else if length (response p) < 2 then Some ShortResponse
          else if drop (length (response p) - 2) (response p) \<noteq> [0x90, 0x00]
          then Some CardCommandError else None) = Some k"
        by (simp add: fault_kind_def)
      from transmit_raises [OF this] True Cons listed show ?thesis
        by (simp add: read_uid_windows_def windows_session_def after_def try_finally_def
            SCARD_S_SUCCESS_def)
    qed
  qed
qed

text \<open>
  The macOS reader raises an exception of the fault's kind for every kind but
  \<open>NoCardDetected\<close>.
\<close>

lemma macos_raises:
  assumes fk: "fault_kind ''darwin'' p = Some k" and nc: "k \<noteq> NoCardDetected"
  shows "\<exists>e. snd (read_uid_macos p) = Inl e \<and> kind_of_exn e = k"
proof (cases p rule: session_cases)
  case (load m)
  with fk show ?thesis
    by (simp add: fault_kind_def read_uid_macos_def kind_of_exn_def)
next
  case establish
  with fk show ?thesis
    by (simp add: fault_kind_def read_uid_macos_def SCARD_S_SUCCESS_def kind_of_exn_def)
next
  case list_size
  with fk show ?thesis
    by (simp add: fault_kind_def read_uid_macos_def macos_session_def after_def
        try_finally_def SCARD_S_SUCCESS_def kind_of_exn_def)
next
  case list
  with fk show ?thesis
    by (simp add: fault_kind_def read_uid_macos_def macos_session_def after_def
        try_finally_def SCARD_S_SUCCESS_def kind_of_exn_def)
next
  case listed
  show ?thesis
  proof (cases "list_all (utf8_ok p) (reader_names (list_buf p))")
    case False
    with listed fk show ?thesis
      by (simp add: fault_kind_def read_uid_macos_def macos_session_def after_def
          try_finally_def SCARD_S_SUCCESS_def kind_of_exn_def)
  next
    case ok: True
    show ?thesis
    proof (cases "reader_names (list_buf p)")
      case Nil
      with listed fk show ?thesis
        by (simp add: fault_kind_def read_uid_macos_def macos_session_def after_def
            try_finally_def SCARD_S_SUCCESS_def kind_of_exn_def)
    next
      case (Cons r rs)
      show ?thesis
      proof (cases "connect_rv p = 0")
        case False
        with Cons ok listed fk nc show ?thesis
          by (cases "no_card_code (connect_rv p)")
            (simp_all add: fault_kind_def read_uid_macos_def macos_session_def after_def
              try_finally_def SCARD_S_SUCCESS_def kind_of_exn_def)
      next
        case True
        with Cons ok listed fk have
          "(if transmit_rv p \<noteq> 0 then Some RuntimeFailure
            else if length (response p) < 2 then Some ShortResponse
            else if drop (length (response p) - 2) (response p) \<noteq> [0x90, 0x00]
            then Some CardCommandError else None) = Some k"
          by (simp add: fault_kind_def)
        from transmit_raises [OF this] True Cons ok listed show ?thesis
          by (simp add: read_uid_macos_def macos_session_def after_def try_finally_def
              SCARD_S_SUCCESS_def)
      qed
    qed
  qed
qed

lemma raised_kind:
  assumes "fault_kind platform p = Some k"
    and "prefix ''win'' platform \<or> k \<noteq> NoCardDetected"
  shows "\<exists>e. snd (read_uid_hex platform p) = Inl e \<and> kind_of_exn e = k"
proof (cases "prefix ''win'' platform")
  case True
  with windows_raises [OF True assms(1)] show ?thesis by (simp add: read_uid_hex_def)
next
  case False
  with assms(2) have nc: "k \<noteq> NoCardDetected" by simp
  show ?thesis
  proof (cases "platform = ''darwin''")
    case True
    with False macos_raises [of p k] assms(1) nc show ?thesis by (simp add: read_uid_hex_def)
  next
    case no: False
    with False assms(1) show ?thesis
      by (simp add: read_uid_hex_def fault_kind_def kind_of_exn_def)
  qed
qed

text \<open>
  Where the exception is of the fault's kind (on Windows always, on macOS for every kind
  but \<open>NoCardDetected\<close>), runs that fail with different kinds raise different
  exceptions.
\<close>

lemma classified_faults_differ:
  assumes "fault_kind platform1 p1 = Some k1" and "fault_kind platform2 p2 = Some k2"
    and "prefix ''win'' platform1 \<or> k1 \<noteq> NoCardDetected"
    and "prefix ''win'' platform2 \<or> k2 \<noteq> NoCardDetected"
    and "k1 \<noteq> k2"
  shows "\<exists>e1 e2. snd (read_uid_hex platform1 p1) = Inl e1 \<and>
           snd (read_uid_hex platform2 p2) = Inl e2 \<and>
           kind_of_exn e1 = k1 \<and> kind_of_exn e2 = k2 \<and> e1 \<noteq> e2"
proof -
  from raised_kind [OF assms(1,3)] obtain e1 where
    e1: "snd (read_uid_hex platform1 p1) = Inl e1" "kind_of_exn e1 = k1" by blast
  from raised_kind [OF assms(2,4)] obtain e2 where
    e2: "snd (read_uid_hex platform2 p2) = Inl e2" "kind_of_exn e2 = k2" by blast
  from e1(2) e2(2) assms(5) have "e1 \<noteq> e2" by auto
  with e1 e2 show ?thesis by blast
qed




lemma returns_without_fault:
  assumes "fault_kind platform p = None"
  shows "\<exists>uid. snd (read_uid_hex platform p) = Inr uid"
proof -
  from assms have pl: "prefix ''win'' platform \<or> platform = ''darwin''"
    and l: "load_error p = None" and e: "establish_rv p = 0"
    and ls: "list_size_rv p = 0" "list_rv p = 0"
    by (auto simp: fault_kind_def split: if_splits)
  from assms l e ls have u: "prefix ''win'' platform \<or> list_all (utf8_ok p) (reader_names (list_buf p))"
    and r: "reader_names (list_buf p) \<noteq> []"
    by (auto simp: fault_kind_def split: if_splits)
  from assms l e ls u r have c: "connect_rv p = 0" and t: "transmit_rv p = 0"
    and len: "2 \<le> length (response p)"
    and sw: "drop (length (response p) - 2) (response p) = [0x90, 0x00]"
    by (auto simp: fault_kind_def split: if_splits)
  from r obtain r0 rs where rn: "reader_names (list_buf p) = r0 # rs"
    by (cases "reader_names (list_buf p)") auto
  have d: "\<exists>uid. snd (transmit_get_uid p) = Inr uid"
    using t len sw by (simp add: transmit_kind decode_long)
  show ?thesis
  proof (cases "prefix ''win'' platform")
    case True
    with d l e ls rn c show ?thesis
      by (simp add: read_uid_hex_def read_uid_windows_def windows_session_def after_def
          try_finally_def SCARD_S_SUCCESS_def)
  next
    case False
    with pl u have "platform = ''darwin''" "list_all (utf8_ok p) (reader_names (list_buf p))"
      by auto
    with False d l e ls rn c show ?thesis
      by (simp add: read_uid_hex_def read_uid_macos_def macos_session_def after_def
          try_finally_def SCARD_S_SUCCESS_def)
  qed
qed

lemma taxonomy_examples:
  "snd (read_uid_hex ''linux'' card_present) =
     Inl (RuntimeError ''This build supports Windows and macOS only.'')"
  "snd (read_uid_hex ''win32'' (card_present\<lparr>establish_rv := 6\<rparr>)) =
     Inl (RuntimeError ''SCardEstablishContext failed: 0x00000006'')"
  "snd (read_uid_hex ''win32'' (card_present\<lparr>list_buf := [CHR 0x00]\<rparr>)) =
     Inl (RuntimeError ''No PC/SC readers found'')"
  "snd (read_uid_hex ''win32'' (card_present\<lparr>connect_rv := 0x80100069\<rparr>)) =
     Inl (NoCardDetectedError ''No smart card present or card removed.'')"
  "snd (read_uid_hex ''win32'' (card_present\<lparr>response := [0x6A, 0x81]\<rparr>)) =
     Inl (RuntimeError ''GET_UID failed: SW=6A81'')"
  "snd (read_uid_hex ''win32'' (card_present\<lparr>response := [0x04]\<rparr>)) =
     Inl (RuntimeError ''Short response'')"
proof -
  have f: "format_X 8 6 = ''00000006''"
    by (simp add: format_X_def zfill_def hex_digits.simps upper_digits_def eval_nat_numeral)
  have n: "reader_names [CHR 0x00] = []" by (simp add: reader_names_def)
  have d: "decode [0x6A, 0x81] = Inl (RuntimeError ''GET_UID failed: SW=6A81'')" by code_simp
  show "snd (read_uid_hex ''linux'' card_present) =
     Inl (RuntimeError ''This build supports Windows and macOS only.'')"
    by (simp add: read_uid_hex_def)
  show "snd (read_uid_hex ''win32'' (card_present\<lparr>establish_rv := 6\<rparr>)) =
     Inl (RuntimeError ''SCardEstablishContext failed: 0x00000006'')"
    by (simp add: read_uid_hex_def read_uid_windows_def SCARD_S_SUCCESS_def card_present_sel f)
  show "snd (read_uid_hex ''win32'' (card_present\<lparr>list_buf := [CHR 0x00]\<rparr>)) =
     Inl (RuntimeError ''No PC/SC readers found'')"
    by (simp add: read_uid_hex_def read_uid_windows_def windows_session_def after_def
        try_finally_def SCARD_S_SUCCESS_def card_present_sel n)
  show "snd (read_uid_hex ''win32'' (card_present\<lparr>connect_rv := 0x80100069\<rparr>)) =
     Inl (NoCardDetectedError ''No smart card present or card removed.'')"
    by (simp add: read_uid_hex_def read_uid_windows_def windows_session_def after_def
        try_finally_def SCARD_S_SUCCESS_def card_present_sel reader_names_acr122
        windows_connect_failure_kind no_card_codes)
  show "snd (read_uid_hex ''win32'' (card_present\<lparr>response := [0x6A, 0x81]\<rparr>)) =
     Inl (RuntimeError ''GET_UID failed: SW=6A81'')"
    by (simp add: read_uid_hex_def read_uid_windows_def windows_session_def after_def
        try_finally_def SCARD_S_SUCCESS_def card_present_sel reader_names_acr122
        transmit_kind d)
  show "snd (read_uid_hex ''win32'' (card_present\<lparr>response := [0x04]\<rparr>)) =
     Inl (RuntimeError ''Short response'')"
    by (simp add: read_uid_hex_def read_uid_windows_def windows_session_def after_def
        try_finally_def SCARD_S_SUCCESS_def card_present_sel reader_names_acr122
        transmit_kind decode_short)
qed

end
